theory Spec2Isabelle
  imports Complex_Main "HOL-Library.Word"
begin

section \<open>JavaScript strings\<close>

text \<open>
  A JavaScript string is a sequence of 16-bit code units; \<open>length\<close>, \<open>includes\<close>,
  \<open>toLowerCase\<close> and \<open>trim\<close> all work on code units. String literals of the source are
  written \<open>js ''...''\<close>; characters outside ASCII are given by their code unit
  (\<open>0xB3\<close> is superscript three, \<open>0x221A\<close> the square root sign, and so on).
\<close>

type_synonym jsstring = "16 word list"

definition js :: "string \<Rightarrow> jsstring" where
  "js s = map of_char s"

text \<open>
  \<open>String.prototype.toLowerCase\<close>, on the ASCII capitals. The case mappings of Unicode
  outside ASCII are not modelled: every keyword the program searches for is ASCII.
\<close>

definition lowerUnit :: "16 word \<Rightarrow> 16 word" where
  "lowerUnit c = (if 0x41 \<le> c \<and> c \<le> 0x5A then c + 0x20 else c)"

definition toLowerCase :: "jsstring \<Rightarrow> jsstring" where
  "toLowerCase s = map lowerUnit s"

fun startsWith :: "'a list \<Rightarrow> 'a list \<Rightarrow> bool" where
  "startsWith s [] = True"
| "startsWith [] (c # t) = False"
| "startsWith (a # s) (c # t) = (a = c \<and> startsWith s t)"

text \<open>\<open>s.includes(t)\<close>: \<open>t\<close> occurs in \<open>s\<close> as a contiguous run of code units.\<close>

fun includes_str :: "'a list \<Rightarrow> 'a list \<Rightarrow> bool" where
  "includes_str [] t = (t = [])"
| "includes_str (a # s) t = (startsWith (a # s) t \<or> includes_str s t)"

text \<open>\<open>Array.prototype.join\<close> on an array of strings.\<close>

fun join_with :: "'a list \<Rightarrow> 'a list list \<Rightarrow> 'a list" where
  "join_with sep [] = []"
| "join_with sep [x] = x"
| "join_with sep (x # y # ys) = x @ sep @ join_with sep (y # ys)"

text \<open>
  The code units \<open>String.prototype.trim\<close> strips: the WhiteSpace and LineTerminator
  productions of ECMAScript, all of them single code units.
\<close>

definition isWhiteSpace :: "16 word \<Rightarrow> bool" where
  "isWhiteSpace c \<longleftrightarrow>
     (0x09 \<le> c \<and> c \<le> 0x0D) \<or> c = 0x20 \<or> c = 0xA0 \<or> c = 0x1680 \<or>
     (0x2000 \<le> c \<and> c \<le> 0x200A) \<or> c = 0x2028 \<or> c = 0x2029 \<or> c = 0x202F \<or>
     c = 0x205F \<or> c = 0x3000 \<or> c = 0xFEFF"

definition trim :: "jsstring \<Rightarrow> jsstring" where
  "trim s = rev (dropWhile isWhiteSpace (rev (dropWhile isWhiteSpace s)))"

section \<open>Types of the application\<close>

datatype GeometryType = Default | Cube | Pyramid | Frustum

text \<open>The string a \<open>GeometryType\<close> is at run time, as template literals print it.\<close>

fun typeName :: "GeometryType \<Rightarrow> jsstring" where
  "typeName Default = js ''default''"
| "typeName Cube = js ''cube''"
| "typeName Pyramid = js ''pyramid''"
| "typeName Frustum = js ''frustum''"

datatype Role = AI | User

text \<open>The optional field \<open>isThinking\<close> of a chat message is never written by the program.\<close>

record ChatMessage =
  role :: Role
  msg_text :: jsstring

record ProblemContext =
  ctx_text :: jsstring
  ctx_image :: "jsstring option"
  ctx_type :: GeometryType

section \<open>Knowledge base and context retrieval\<close>

record KnowledgeEntry =
  kb_definition :: jsstring
  kb_formulas :: "jsstring list"
  kb_properties :: "jsstring list"

fun GEOMETRY_KNOWLEDGE_BASE :: "GeometryType \<Rightarrow> KnowledgeEntry" where
  "GEOMETRY_KNOWLEDGE_BASE Cube = \<lparr>
     kb_definition = js ''A regular hexahedron with 6 equal square faces.'',
     kb_formulas = [
       js ''Volume = s'' @ [0xB3] @ js '' (where s is side length)'',
       js ''Surface Area = 6s'' @ [0xB2],
       js ''Space Diagonal = s'' @ [0x221A] @ js ''3'',
       js ''Face Diagonal = s'' @ [0x221A] @ js ''2''],
     kb_properties = [js ''12 Edges'', js ''8 Vertices'', js ''6 Faces'',
       js ''All angles are 90'' @ [0xB0]] \<rparr>"
| "GEOMETRY_KNOWLEDGE_BASE Pyramid = \<lparr>
     kb_definition = js ''A polyhedron with a polygonal base and triangular faces that meet at a point (apex).'',
     kb_formulas = [
       js ''Volume = (1/3) '' @ [0xD7] @ js '' Base Area '' @ [0xD7] @ js '' Height'',
       js ''Slant Height'' @ [0xB2] @ js '' = Height'' @ [0xB2] @ js '' + (Base/2)'' @ [0xB2]
         @ js '' (for square pyramid)'',
       js ''Total Surface Area = Base Area + Lateral Area''],
     kb_properties = [
       js ''The height is the perpendicular distance from apex to base'',
       js ''Slant height is the height of the triangular face''] \<rparr>"
| "GEOMETRY_KNOWLEDGE_BASE Frustum = \<lparr>
     kb_definition = js ''The portion of a cone or pyramid that remains after its upper part has been cut off by a plane parallel to its base.'',
     kb_formulas = [
       js ''Volume (Cone Frustum) = (1/3)'' @ [0x3C0] @ js ''h(R'' @ [0xB2] @ js '' + r''
         @ [0xB2] @ js '' + Rr)'',
       js ''Lateral Area = '' @ [0x3C0] @ js ''(R + r)s (where s is slant height)'',
       js ''Slant Height s = '' @ [0x221A] @ js ''((R-r)'' @ [0xB2] @ js '' + h'' @ [0xB2]
         @ js '')''],
     kb_properties = [
       js ''Two parallel bases (top and bottom)'',
       js ''Height is perpendicular distance between bases''] \<rparr>"
| "GEOMETRY_KNOWLEDGE_BASE Default = \<lparr>
     kb_definition = js ''A complex or general geometric shape.'',
     kb_formulas = [js ''Volume usually depends on decomposing the shape.''],
     kb_properties = [js ''Check for symmetry'',
       js ''Identify basic components (spheres, cylinders, etc.)''] \<rparr>"

text \<open>
  Whether the query, in lower case, contains one of the keywords of each of the three
  retrieval steps.
\<close>

definition volumeQuery :: "jsstring \<Rightarrow> bool" where
  "volumeQuery q \<longleftrightarrow>
     includes_str q (js ''volume'') \<or> includes_str q (js ''space'') \<or> includes_str q (js ''capacity'')"

definition areaQuery :: "jsstring \<Rightarrow> bool" where
  "areaQuery q \<longleftrightarrow> includes_str q (js ''area'') \<or> includes_str q (js ''surface'')"

definition otherQuery :: "jsstring \<Rightarrow> bool" where
  "otherQuery q \<longleftrightarrow>
     includes_str q (js ''diagonal'') \<or> includes_str q (js ''height'') \<or> includes_str q (js ''slant'')"

text \<open>
  The array \<open>retrievedInfo\<close> of \<open>retrieveContext\<close> when the function returns. Every
  \<open>GeometryType\<close> is a key of the knowledge base, so the fallback
  \<open>|| GEOMETRY_KNOWLEDGE_BASE.default\<close> is never taken.
\<close>

definition retrievedInfo :: "jsstring \<Rightarrow> GeometryType \<Rightarrow> jsstring list" where
  "retrievedInfo query ty =
     (let knowledge = GEOMETRY_KNOWLEDGE_BASE ty;
          q = toLowerCase query;
          info0 = [js ''Definition: '' @ kb_definition knowledge];
          info1 = (if volumeQuery q
                   then info0 @ [js ''Relevant Formulas: '' @
                     join_with (js ''; '')
                       (filter (\<lambda>f. includes_str f (js ''Volume'')) (kb_formulas knowledge))]
                   else info0);
          info2 = (if areaQuery q
                   then info1 @ [js ''Relevant Formulas: '' @
                     join_with (js ''; '')
                       (filter (\<lambda>f. includes_str f (js ''Area'')) (kb_formulas knowledge))]
                   else info1);
          info3 = (if otherQuery q
                   then info2 @ [js ''Properties/Other Formulas: '' @
                     join_with (js ''; '') (kb_formulas knowledge)]
                   else info2)
      in if length info3 = 1
         then info3 @ [js ''Key Properties: '' @ join_with (js ''; '') (kb_properties knowledge)]
         else info3)"

definition retrieveContext :: "jsstring \<Rightarrow> GeometryType \<Rightarrow> jsstring" where
  "retrieveContext query ty = join_with [0x0A] (retrievedInfo query ty)"

section \<open>Stroke smoothing\<close>

text \<open>
  A pointer sample is the pair \<open>[x, y]\<close> that \<open>getCoordinates\<close> returns. Coordinates are
  real numbers here; the rounding of IEEE-754 arithmetic is not modelled.

  The path description is a string assembled from literal text and from numbers printed in
  one of two ways: by the default conversion of a number to a string (what
  \<open>Array.prototype.join\<close> applies) or by \<open>toFixed(2)\<close>. A path is kept as the list of
  these pieces, in order; \<open>render\<close> gives the string once the two conversions are supplied.
\<close>

type_synonym point = "real \<times> real"

datatype piece = Text jsstring | ToStr real | ToFixed real nat

type_synonym path = "piece list"

fun renderPiece :: "(real \<Rightarrow> jsstring) \<Rightarrow> (real \<Rightarrow> nat \<Rightarrow> jsstring) \<Rightarrow> piece \<Rightarrow> jsstring" where
  "renderPiece str fix (Text t) = t"
| "renderPiece str fix (ToStr x) = str x"
| "renderPiece str fix (ToFixed x n) = fix x n"

definition render :: "(real \<Rightarrow> jsstring) \<Rightarrow> (real \<Rightarrow> nat \<Rightarrow> jsstring) \<Rightarrow> path \<Rightarrow> jsstring" where
  "render str fix d = concat (map (renderPiece str fix) d)"

text \<open>\<open>p.join(' ')\<close> for a sample \<open>p = [x, y]\<close>.\<close>

definition joinPoint :: "point \<Rightarrow> path" where
  "joinPoint p = [ToStr (fst p), Text (js '' ''), ToStr (snd p)]"

text \<open>The \<open>for\<close> loop of \<open>getSmoothedPath\<close>, from index \<open>i\<close> with the string \<open>d\<close> built so far.\<close>

function smoothLoop :: "point list \<Rightarrow> nat \<Rightarrow> path \<Rightarrow> path" where
  "smoothLoop points i d =
     (if i < length points - 1
      then (let cp = points ! i;
                nxt = points ! (i + 1);
                midX = (fst cp + fst nxt) / 2;
                midY = (snd cp + snd nxt) / 2
            in smoothLoop points (i + 1)
                 (d @ [Text (js '' Q ''), ToFixed (fst cp) 2, Text (js '' ''), ToFixed (snd cp) 2,
                       Text (js '' ''), ToFixed midX 2, Text (js '' ''), ToFixed midY 2]))
      else d)"
  by pat_completeness auto
termination
  by (relation "measure (\<lambda>(points, i, d). length points - 1 - i)") auto

declare smoothLoop.simps [simp del]

definition getSmoothedPath :: "point list \<Rightarrow> path" where
  "getSmoothedPath points =
     (if length points = 0 then []
      else if length points < 3
      then Text (js ''M '') # join_with [Text (js '' L '')] (map joinPoint points)
      else (let d = [Text (js ''M ''), ToFixed (fst (points ! 0)) 2, Text (js '' ''),
                     ToFixed (snd (points ! 0)) 2];
                d' = smoothLoop points 1 d;
                lst = points ! (length points - 1)
            in d' @ [Text (js '' L ''), ToFixed (fst lst) 2, Text (js '' ''),
                     ToFixed (snd lst) 2]))"

section \<open>Shape templates\<close>

datatype Template = CUBE | PYRAMID | FRUSTUM

fun TEMPLATES :: "Template \<Rightarrow> path" where
  "TEMPLATES CUBE = [Text (js ''M 150 100 L 236 150 L 236 250 L 150 300 L 64 250 L 64 150 L 150 100 Z M 150 100 L 150 200 M 150 200 L 64 250 M 150 200 L 236 250'')]"
| "TEMPLATES PYRAMID = [Text (js ''M 150 60 L 70 200 L 150 250 L 230 200 Z M 150 60 L 150 250'')]"
| "TEMPLATES FRUSTUM = [Text (js ''M 100 100 L 200 100 L 220 250 L 80 250 Z M 100 100 Q 150 80 200 100 M 100 100 Q 150 120 200 100 M 80 250 Q 150 270 220 250'')]"

text \<open>The kind each template button of the toolbar passes to \<open>addTemplate\<close>.\<close>

fun templateType :: "Template \<Rightarrow> GeometryType" where
  "templateType CUBE = Cube"
| "templateType PYRAMID = Pyramid"
| "templateType FRUSTUM = Frustum"

section \<open>The sketchpad\<close>

text \<open>
  The state of \<open>SketchpadView\<close>. The program keeps \<open>paths\<close> as an array of strings; the
  model stores with each path which handler appended it (\<open>FreeHand\<close> for
  \<open>handlePointerUp\<close>, \<open>FromTemplate\<close> for \<open>addTemplate\<close>), so that properties about the
  origin of the committed curves can be stated. No transition reads this tag.

  \<open>scheduled\<close> holds the contexts of the pending \<open>setTimeout\<close> callbacks that will call
  \<open>onComplete\<close>, oldest first; \<open>completed\<close> the contexts \<open>onComplete\<close> has been called with.
\<close>

datatype Origin = FreeHand | FromTemplate GeometryType

record Sketchpad =
  paths :: "(path \<times> Origin) list"
  currentPoints :: "point list"
  isSolving :: bool
  showRecognition :: bool
  selectedTemplate :: GeometryType
  scheduled :: "ProblemContext list"
  completed :: "ProblemContext list"

definition initialSketchpad :: Sketchpad where
  "initialSketchpad = \<lparr> paths = [], currentPoints = [], isSolving = False,
     showRecognition = False, selectedTemplate = Default, scheduled = [], completed = [] \<rparr>"

definition hypot :: "real \<Rightarrow> real \<Rightarrow> real" where
  "hypot a b = sqrt (a * a + b * b)"

definition handlePointerDown :: "point \<Rightarrow> Sketchpad \<Rightarrow> Sketchpad" where
  "handlePointerDown xy s = (if isSolving s then s else s\<lparr>currentPoints := [xy]\<rparr>)"

text \<open>\<open>buttons\<close> is the field \<open>e.buttons\<close> of the pointer event.\<close>

definition handlePointerMove :: "nat \<Rightarrow> point \<Rightarrow> Sketchpad \<Rightarrow> Sketchpad" where
  "handlePointerMove buttons xy s =
     (if buttons \<noteq> 1 \<or> isSolving s then s
      else s\<lparr>currentPoints :=
        (let prev = currentPoints s
         in if length prev > 0 \<and>
               hypot (fst (prev ! (length prev - 1)) - fst xy)
                     (snd (prev ! (length prev - 1)) - snd xy) < 4
            then prev
            else prev @ [xy])\<rparr>)"

definition handlePointerUp :: "Sketchpad \<Rightarrow> Sketchpad" where
  "handlePointerUp s =
     (if length (currentPoints s) > 1
      then s\<lparr>paths := paths s @ [(getSmoothedPath (currentPoints s), FreeHand)]\<rparr>
      else s)\<lparr>currentPoints := []\<rparr>"

definition addTemplate :: "path \<Rightarrow> GeometryType \<Rightarrow> Sketchpad \<Rightarrow> Sketchpad" where
  "addTemplate d ty s = s\<lparr>paths := paths s @ [(d, FromTemplate ty)], selectedTemplate := ty\<rparr>"

definition clearCanvas :: "Sketchpad \<Rightarrow> Sketchpad" where
  "clearCanvas s = s\<lparr>paths := [], selectedTemplate := Default\<rparr>"

text \<open>\<open>prev.slice(0, -1)\<close> is the array without its last element, empty for an empty array.\<close>

definition undoLast :: "Sketchpad \<Rightarrow> Sketchpad" where
  "undoLast s = s\<lparr>paths := butlast (paths s)\<rparr>"

definition handleMagic :: "Sketchpad \<Rightarrow> Sketchpad" where
  "handleMagic s =
     (if length (paths s) = 0 then s
      else if selectedTemplate s = Default then s\<lparr>showRecognition := True\<rparr>
      else s\<lparr>isSolving := True,
             scheduled := scheduled s @
               [\<lparr> ctx_text = js ''User sketched a '' @ typeName (selectedTemplate s)
                     @ js '' and wants to analyze it.'',
                  ctx_image = None,
                  ctx_type = selectedTemplate s \<rparr>]\<rparr>)"

definition handleRecognitionConfirm :: "GeometryType \<Rightarrow> Sketchpad \<Rightarrow> Sketchpad" where
  "handleRecognitionConfirm ty s =
     s\<lparr>showRecognition := False, isSolving := True,
       scheduled := scheduled s @
         [\<lparr> ctx_text = (if ty = Default
              then js ''User sketched a complex geometric shape. Ask them to describe its faces and vertices.''
              else js ''User sketched a '' @ typeName ty @ js ''.''),
            ctx_image = None,
            ctx_type = ty \<rparr>]\<rparr>"

text \<open>The \<open>onCancel\<close> handler of the confirmation modal.\<close>

definition recognitionCancel :: "Sketchpad \<Rightarrow> Sketchpad" where
  "recognitionCancel s = s\<lparr>showRecognition := False\<rparr>"

text \<open>The oldest pending timer fires and calls \<open>onComplete\<close>.\<close>

definition timerFires :: "Sketchpad \<Rightarrow> Sketchpad" where
  "timerFires s =
     (case scheduled s of
        [] \<Rightarrow> s
      | c # cs \<Rightarrow> s\<lparr>scheduled := cs, completed := completed s @ [c]\<rparr>)"

text \<open>
  What the user and the timers can do to the sketchpad. The solve button is disabled while
  \<open>paths\<close> is empty or \<open>isSolving\<close> holds; the two buttons of the confirmation modal exist
  only while \<open>showRecognition\<close> holds. \<open>onPointerLeave\<close> is bound to \<open>handlePointerUp\<close>.
\<close>

datatype SketchEvent =
    PointerDown point
  | PointerMove nat point
  | PointerUp
  | PointerLeave
  | TemplateButton Template
  | UndoButton
  | ClearButton
  | SolveButton
  | ConfirmButton GeometryType
  | CancelButton
  | TimerFires

fun sketchStep :: "Sketchpad \<Rightarrow> SketchEvent \<Rightarrow> Sketchpad" where
  "sketchStep s (PointerDown xy) = handlePointerDown xy s"
| "sketchStep s (PointerMove buttons xy) = handlePointerMove buttons xy s"
| "sketchStep s PointerUp = handlePointerUp s"
| "sketchStep s PointerLeave = handlePointerUp s"
| "sketchStep s (TemplateButton t) = addTemplate (TEMPLATES t) (templateType t) s"
| "sketchStep s UndoButton = undoLast s"
| "sketchStep s ClearButton = clearCanvas s"
| "sketchStep s SolveButton = (if length (paths s) = 0 \<or> isSolving s then s else handleMagic s)"
| "sketchStep s (ConfirmButton ty) = (if showRecognition s then handleRecognitionConfirm ty s else s)"
| "sketchStep s CancelButton = (if showRecognition s then recognitionCancel s else s)"
| "sketchStep s TimerFires = timerFires s"

definition sketchRun :: "Sketchpad \<Rightarrow> SketchEvent list \<Rightarrow> Sketchpad" where
  "sketchRun s es = foldl sketchStep s es"

section \<open>The scan view\<close>

definition imagePlaceholder :: jsstring where
  "imagePlaceholder = js ''User uploaded an image file containing a geometry problem. The AI should act as if it can see the problem but needs the user to transcribe specific numbers.''"

definition examples :: "ProblemContext list" where
  "examples = [
     \<lparr> ctx_text = js ''Calculate the total surface area of a square-based pyramid with base length 10cm and slant height 14cm.'',
       ctx_image = None, ctx_type = Pyramid \<rparr>,
     \<lparr> ctx_text = js ''A cube has a volume of 512 cm'' @ [0xB3]
         @ js ''. Find the length of its main space diagonal.'',
       ctx_image = None, ctx_type = Cube \<rparr>,
     \<lparr> ctx_text = js ''A bucket is in the shape of a frustum with top radius 15cm, bottom radius 10cm, and height 20cm. Find its capacity.'',
       ctx_image = None, ctx_type = Frustum \<rparr>,
     \<lparr> ctx_text = js ''A sphere is inscribed perfectly inside a cylinder with height 10 units. What is the ratio of their volumes?'',
       ctx_image = None, ctx_type = Default \<rparr>]"

text \<open>
  \<open>handleAnalyze\<close> of \<open>ScanView\<close>, on the current \<open>problemText\<close>: the context it passes to
  \<open>onAnalyze\<close>, or \<open>None\<close> when it returns early.
\<close>

definition scanHandleAnalyze :: "jsstring \<Rightarrow> ProblemContext option" where
  "scanHandleAnalyze problemText =
     (if trim problemText = [] then None
      else Some \<lparr> ctx_text = problemText, ctx_image = None, ctx_type = Default \<rparr>)"

text \<open>
  The events of the scan view: typing into the text area, dropping something on the upload
  area (with or without a file), clicking the upload area, the analyze button (disabled
  while \<open>problemText\<close> is empty) and the example buttons. A step gives the new
  \<open>problemText\<close> and the context passed to \<open>onAnalyze\<close>, if any.
\<close>

datatype ScanEvent =
    TextChange jsstring
  | Drop bool
  | UploadClick
  | AnalyzeButton
  | ExampleButton nat

fun scanStep :: "jsstring \<Rightarrow> ScanEvent \<Rightarrow> jsstring \<times> ProblemContext option" where
  "scanStep problemText (TextChange v) = (v, None)"
| "scanStep problemText (Drop hasFile) =
     ((if hasFile then imagePlaceholder else problemText), None)"
| "scanStep problemText UploadClick =
     ((if problemText \<noteq> [] then problemText else imagePlaceholder), None)"
| "scanStep problemText AnalyzeButton =
     (problemText, if problemText = [] then None else scanHandleAnalyze problemText)"
| "scanStep problemText (ExampleButton i) =
     (problemText, if i < length examples then Some (examples ! i) else None)"

section \<open>The workspace: tutoring session\<close>

text \<open>
  The opening message \<open>initChat\<close> builds. A JavaScript string is truthy when it is not
  empty.
\<close>

definition initialMsg :: "ProblemContext \<Rightarrow> jsstring" where
  "initialMsg context =
     (let m = js ''I'' @ [0x27] @ js ''ve analyzed the ''
              @ (if ctx_type context = Default then js ''geometry'' else typeName (ctx_type context))
              @ js ''.''
      in if ctx_text context \<noteq> [] \<and> includes_str (ctx_text context) (js ''User uploaded an image'')
         then m @ js '' Since I can'' @ [0x27]
                @ js ''t read the specific numbers from the image perfectly yet, could you tell me what values are given?''
         else if ctx_type context = Default
         then m @ js '' It looks complex. Can you describe the faces or vertices to help me understand it better?''
         else if ctx_text context \<noteq> [] \<and> length (ctx_text context) > 10
         then m @ js '' It looks like an interesting problem. What is the first variable we need to identify?''
         else m @ js '' I'' @ [0x27] @ js ''m ready to help you solve it. Where should we start?'')"

text \<open>
  One call of \<open>handleSendMessage\<close> that passed its guard lives on as a timer callback and
  then as an asynchronous loop over the reply stream. A \<open>Turn\<close> is that continuation: the
  captured \<open>userMsg\<close> and \<open>contextData\<close>, and where it stands: waiting for the 600 ms timer
  (\<open>Delayed\<close>), awaiting \<open>sendMessageStream\<close> (\<open>Sending\<close>), or iterating over the chunks
  with the text accumulated so far (\<open>Receiving fullText\<close>).
\<close>

datatype Phase = Delayed | Sending | Receiving jsstring

record Turn =
  userMsg :: jsstring
  contextData :: jsstring
  phase :: Phase

text \<open>
  The state of \<open>WorkspaceView\<close>: its four state variables, whether
  \<open>chatSessionRef.current\<close> is set, the turns in flight, and the prompts handed to the
  remote chat so far.
\<close>

record Workspace =
  messages :: "ChatMessage list"
  inputText :: jsstring
  isTyping :: bool
  isRetrieving :: bool
  chatSession :: bool
  turns :: "Turn list"
  sent :: "jsstring list"

definition mountedWorkspace :: Workspace where
  "mountedWorkspace = \<lparr> messages = [], inputText = [], isTyping = False, isRetrieving = False,
     chatSession = False, turns = [], sent = [] \<rparr>"

definition initChat :: "ProblemContext \<Rightarrow> Workspace \<Rightarrow> Workspace" where
  "initChat context s =
     s\<lparr>chatSession := True, messages := [\<lparr> role = AI, msg_text = initialMsg context \<rparr>]\<rparr>"

text \<open>The synchronous part of \<open>handleSendMessage\<close>, up to the call of \<open>setTimeout\<close>.\<close>

definition handleSendMessage :: "ProblemContext \<Rightarrow> Workspace \<Rightarrow> Workspace" where
  "handleSendMessage context s =
     (if trim (inputText s) = [] \<or> \<not> chatSession s then s
      else (let userMsg = inputText s
            in s\<lparr>inputText := [],
                 messages := messages s @ [\<lparr> role = User, msg_text = userMsg \<rparr>],
                 isRetrieving := True,
                 turns := turns s @
                   [\<lparr> userMsg = userMsg,
                      contextData = retrieveContext userMsg (ctx_type context),
                      phase = Delayed \<rparr>]\<rparr>))"

definition handleKeyPress :: "ProblemContext \<Rightarrow> jsstring \<Rightarrow> Workspace \<Rightarrow> Workspace" where
  "handleKeyPress context key s = (if key = js ''Enter'' then handleSendMessage context s else s)"

definition promptWithContext :: "Turn \<Rightarrow> jsstring" where
  "promptWithContext t =
     js ''[Context: '' @ contextData t @ js ''] User Question: '' @ userMsg t"

definition removeTurn :: "nat \<Rightarrow> Turn list \<Rightarrow> Turn list" where
  "removeTurn i ts = take i ts @ drop (Suc i) ts"

text \<open>The timer of turn \<open>i\<close> fires: the callback runs up to \<open>await sendMessageStream\<close>.\<close>

definition timerElapsed :: "nat \<Rightarrow> Workspace \<Rightarrow> Workspace" where
  "timerElapsed i s =
     (if i < length (turns s) \<and> phase (turns s ! i) = Delayed
      then s\<lparr>isRetrieving := False, isTyping := True,
             sent := sent s @ [promptWithContext (turns s ! i)],
             turns := (turns s)[i := (turns s ! i)\<lparr>phase := Sending\<rparr>]\<rparr>
      else s)"

text \<open>\<open>sendMessageStream\<close> of turn \<open>i\<close> resolves: the empty AI message is appended.\<close>

definition streamOpened :: "nat \<Rightarrow> Workspace \<Rightarrow> Workspace" where
  "streamOpened i s =
     (if i < length (turns s) \<and> phase (turns s ! i) = Sending
      then s\<lparr>messages := messages s @ [\<lparr> role = AI, msg_text = [] \<rparr>],
             turns := (turns s)[i := (turns s ! i)\<lparr>phase := Receiving []\<rparr>]\<rparr>
      else s)"

text \<open>
  A chunk with text \<open>t\<close> arrives for turn \<open>i\<close>. An empty text is falsy and skipped;
  otherwise the last message of the transcript is overwritten.
\<close>

definition streamChunk :: "nat \<Rightarrow> jsstring \<Rightarrow> Workspace \<Rightarrow> Workspace" where
  "streamChunk i t s =
     (if i < length (turns s)
      then (case phase (turns s ! i) of
              Receiving fullText \<Rightarrow>
                (if t \<noteq> []
                 then s\<lparr>messages := (messages s)[length (messages s) - 1 :=
                                       \<lparr> role = AI, msg_text = fullText @ t \<rparr>],
                        turns := (turns s)[i := (turns s ! i)\<lparr>phase := Receiving (fullText @ t)\<rparr>]\<rparr>
                 else s)
            | _ \<Rightarrow> s)
      else s)"

text \<open>The stream of turn \<open>i\<close> ends: only the \<open>finally\<close> block runs.\<close>

definition streamDone :: "nat \<Rightarrow> Workspace \<Rightarrow> Workspace" where
  "streamDone i s =
     (if i < length (turns s)
      then (case phase (turns s ! i) of
              Receiving fullText \<Rightarrow> s\<lparr>isTyping := False, turns := removeTurn i (turns s)\<rparr>
            | _ \<Rightarrow> s)
      else s)"

text \<open>
  \<open>sendMessageStream\<close> or the iteration over the stream throws in turn \<open>i\<close>: the \<open>catch\<close>
  block, then the \<open>finally\<close> block.
\<close>

definition streamFailed :: "nat \<Rightarrow> Workspace \<Rightarrow> Workspace" where
  "streamFailed i s =
     (if i < length (turns s) \<and> phase (turns s ! i) \<noteq> Delayed
      then s\<lparr>messages := messages s @
               [\<lparr> role = AI, msg_text = js ''Connection error. Please try again.'' \<rparr>],
             isTyping := False,
             turns := removeTurn i (turns s)\<rparr>
      else s)"

text \<open>
  The events of the workspace. The send button is disabled while the input is blank or
  \<open>isTyping\<close> or \<open>isRetrieving\<close> holds; \<open>onKeyDown\<close> of the input field calls
  \<open>handleKeyPress\<close> with the key's name.
\<close>

datatype WorkspaceEvent =
    InputChange jsstring
  | SendButton
  | KeyDown jsstring
  | TimerElapsed nat
  | StreamOpened nat
  | StreamChunk nat jsstring
  | StreamDone nat
  | StreamFailed nat

fun workspaceStep :: "ProblemContext \<Rightarrow> Workspace \<Rightarrow> WorkspaceEvent \<Rightarrow> Workspace" where
  "workspaceStep context s (InputChange v) = s\<lparr>inputText := v\<rparr>"
| "workspaceStep context s SendButton =
     (if trim (inputText s) = [] \<or> isTyping s \<or> isRetrieving s then s
      else handleSendMessage context s)"
| "workspaceStep context s (KeyDown key) = handleKeyPress context key s"
| "workspaceStep context s (TimerElapsed i) = timerElapsed i s"
| "workspaceStep context s (StreamOpened i) = streamOpened i s"
| "workspaceStep context s (StreamChunk i t) = streamChunk i t s"
| "workspaceStep context s (StreamDone i) = streamDone i s"
| "workspaceStep context s (StreamFailed i) = streamFailed i s"

definition workspaceRun :: "ProblemContext \<Rightarrow> Workspace \<Rightarrow> WorkspaceEvent list \<Rightarrow> Workspace" where
  "workspaceRun context s es = foldl (workspaceStep context) s es"

section \<open>Notions used in the statements\<close>

subsection \<open>Context retrieval\<close>




subsection \<open>The smoothed curve as the specification describes it\<close>

definition midpoint :: "point \<Rightarrow> point \<Rightarrow> point" where
  "midpoint p q = ((fst p + fst q) / 2, (snd p + snd q) / 2)"

text \<open>The three path commands, with every coordinate printed by \<open>toFixed(2)\<close>.\<close>

definition moveTo :: "point \<Rightarrow> path" where
  "moveTo p = [Text (js ''M ''), ToFixed (fst p) 2, Text (js '' ''), ToFixed (snd p) 2]"

definition quadTo :: "point \<Rightarrow> point \<Rightarrow> path" where
  "quadTo c e = [Text (js '' Q ''), ToFixed (fst c) 2, Text (js '' ''), ToFixed (snd c) 2,
                 Text (js '' ''), ToFixed (fst e) 2, Text (js '' ''), ToFixed (snd e) 2]"

definition lineTo :: "point \<Rightarrow> path" where
  "lineTo p = [Text (js '' L ''), ToFixed (fst p) 2, Text (js '' ''), ToFixed (snd p) 2]"

text \<open>
  Start at the first point; for each interior point a quadratic segment with that point as
  control point, ending at the midpoint to its successor; a straight segment to the last
  point.
\<close>

definition smoothedCurve :: "point list \<Rightarrow> path" where
  "smoothedCurve ps =
     moveTo (hd ps)
     @ concat (map (\<lambda>i. quadTo (ps ! i) (midpoint (ps ! i) (ps ! (i + 1)))) [1..<length ps - 1])
     @ lineTo (last ps)"

text \<open>
  A piece that is a number printed without rounding is not rounded; literal text carries
  no coordinate of the input.
\<close>

fun roundedPiece :: "piece \<Rightarrow> bool" where
  "roundedPiece (Text t) = True"
| "roundedPiece (ToStr x) = False"
| "roundedPiece (ToFixed x n) = (n = 2)"

definition allRounded :: "path \<Rightarrow> bool" where
  "allRounded d = list_all roundedPiece d"

fun isNumber :: "piece \<Rightarrow> bool" where
  "isNumber (Text t) = False"
| "isNumber (ToStr x) = True"
| "isNumber (ToFixed x n) = True"

definition numberPieces :: "path \<Rightarrow> piece list" where
  "numberPieces d = filter isNumber d"

subsection \<open>The sketchpad\<close>

text \<open>
  The kind after one more event, as the handlers set it: a template button sets its kind,
  the clear button resets it, nothing else touches it. Folding this over a sequence of
  events gives the kind of the last template inserted since the last clear, or
  \<open>Default\<close> when there is none.
\<close>

fun kindAfter :: "GeometryType \<Rightarrow> SketchEvent \<Rightarrow> GeometryType" where
  "kindAfter k (TemplateButton t) = templateType t"
| "kindAfter k ClearButton = Default"
| "kindAfter k e = k"

definition kindSinceClear :: "SketchEvent list \<Rightarrow> GeometryType" where
  "kindSinceClear es = foldl kindAfter Default es"

text \<open>At least one committed curve, and every committed curve drawn free-hand.\<close>

definition freeHandOnly :: "Sketchpad \<Rightarrow> bool" where
  "freeHandOnly s \<longleftrightarrow> paths s \<noteq> [] \<and> list_all (\<lambda>p. snd p = FreeHand) (paths s)"

text \<open>While a kind other than \<open>Default\<close> is selected, a template curve is committed.\<close>

definition templateKept :: "Sketchpad \<Rightarrow> bool" where
  "templateKept s \<longleftrightarrow>
     (selectedTemplate s \<noteq> Default \<longrightarrow> (\<exists>p \<in> set (paths s). snd p \<noteq> FreeHand))"





subsection \<open>The tutoring session\<close>

text \<open>The context a confirmed frustum sketch produces, and the session it seeds.\<close>

definition frustumContext :: ProblemContext where
  "frustumContext = \<lparr> ctx_text = js ''User sketched a frustum.'', ctx_image = None, ctx_type = Frustum \<rparr>"

definition readySession :: Workspace where
  "readySession = initChat frustumContext mountedWorkspace"

text \<open>Neither retrieving nor streaming.\<close>

definition ready :: "Workspace \<Rightarrow> bool" where
  "ready s \<longleftrightarrow> \<not> isTyping s \<and> \<not> isRetrieving s"


definition connectionError :: ChatMessage where
  "connectionError = \<lparr> role = AI, msg_text = js ''Connection error. Please try again.'' \<rparr>"

text \<open>A session in the middle of a streamed reply: one turn, one chunk received.\<close>

definition streaming :: Workspace where
  "streaming = workspaceRun frustumContext readySession
     [InputChange (js ''a''), SendButton, TimerElapsed 0, StreamOpened 0, StreamChunk 0 (js ''Vol'')]"

text \<open>The parts of the opening message.\<close>

definition imageSignal :: "ProblemContext \<Rightarrow> bool" where
  "imageSignal c \<longleftrightarrow> includes_str (ctx_text c) (js ''User uploaded an image'')"

definition greeting :: "ProblemContext \<Rightarrow> jsstring" where
  "greeting c = js ''I'' @ [0x27] @ js ''ve analyzed the ''
     @ (if ctx_type c = Default then js ''geometry'' else typeName (ctx_type c)) @ js ''.''"

definition askValues :: jsstring where
  "askValues = js '' Since I can'' @ [0x27]
     @ js ''t read the specific numbers from the image perfectly yet, could you tell me what values are given?''"

definition askFaces :: jsstring where
  "askFaces = js '' It looks complex. Can you describe the faces or vertices to help me understand it better?''"

definition askVariable :: jsstring where
  "askVariable = js '' It looks like an interesting problem. What is the first variable we need to identify?''"

definition askStart :: jsstring where
  "askStart = js '' I'' @ [0x27] @ js ''m ready to help you solve it. Where should we start?''"

section \<open>Auxiliary lemmas\<close>









lemma smoothLoop_step:
  "i < length points - 1 \<Longrightarrow> smoothLoop points i d =
     smoothLoop points (i + 1) (d @ quadTo (points ! i) (midpoint (points ! i) (points ! (i + 1))))"
  by (subst smoothLoop.simps) (simp add: Let_def quadTo_def midpoint_def)

lemma smoothLoop_stop: "\<not> i < length points - 1 \<Longrightarrow> smoothLoop points i d = d"
  by (subst smoothLoop.simps) simp

lemma smoothLoop_closed:
  "smoothLoop points i d =
     d @ concat (map (\<lambda>j. quadTo (points ! j) (midpoint (points ! j) (points ! (j + 1))))
                  [i..<length points - 1])"
proof (induction points i d rule: smoothLoop.induct)
  case (1 points i d)
  show ?case
  proof (cases "i < length points - 1")
    case True
    have "smoothLoop points i d =
        smoothLoop points (i + 1) (d @ quadTo (points ! i) (midpoint (points ! i) (points ! (i + 1))))"
      using True by (rule smoothLoop_step)
    also have "\<dots> = (d @ quadTo (points ! i) (midpoint (points ! i) (points ! (i + 1))))
        @ concat (map (\<lambda>j. quadTo (points ! j) (midpoint (points ! j) (points ! (j + 1))))
                  [i + 1..<length points - 1])"
      using "1.IH" [OF True refl refl refl refl] by (simp add: quadTo_def midpoint_def)
    finally show ?thesis
      using True by (simp add: upt_conv_Cons)
  next
    case False
    then show ?thesis by (simp add: smoothLoop_stop)
  qed
qed

lemma getSmoothedPath_long:
  "3 \<le> length ps \<Longrightarrow> getSmoothedPath ps = smoothedCurve ps"
proof -
  assume l: "3 \<le> length ps"
  then have ne: "ps \<noteq> []" by auto
  have h: "ps ! 0 = hd ps" using ne by (simp add: hd_conv_nth)
  have t: "ps ! (length ps - 1) = last ps" using ne by (simp add: last_conv_nth)
  have "getSmoothedPath ps =
      smoothLoop ps 1 (moveTo (ps ! 0)) @ lineTo (ps ! (length ps - 1))"
    using l ne by (simp add: getSmoothedPath_def Let_def moveTo_def lineTo_def)
  then show ?thesis
    by (simp only: smoothLoop_closed smoothedCurve_def h t append_assoc)
qed

lemma getSmoothedPath_short:
  "getSmoothedPath [] = []"
  "getSmoothedPath [p] = Text (js ''M '') # joinPoint p"
  "getSmoothedPath [p, q] = Text (js ''M '') # joinPoint p @ Text (js '' L '') # joinPoint q"
  by (simp_all add: getSmoothedPath_def)

lemma allRounded_curve: "allRounded (smoothedCurve ps)"
  by (auto simp add: allRounded_def smoothedCurve_def list_all_iff moveTo_def quadTo_def lineTo_def)

lemma hypot_less: "0 \<le> b \<Longrightarrow> hypot x y < b \<longleftrightarrow> x * x + y * y < b * b"
proof -
  assume b: "0 \<le> b"
  have "sqrt (x * x + y * y) < b \<longleftrightarrow> sqrt (x * x + y * y) < sqrt (b * b)"
    using b by simp
  also have "\<dots> \<longleftrightarrow> x * x + y * y < b * b"
    by (rule real_sqrt_less_iff)
  finally show ?thesis by (simp add: hypot_def)
qed

lemmas sketch_defs = handlePointerDown_def handlePointerMove_def handlePointerUp_def
  addTemplate_def clearCanvas_def undoLast_def handleMagic_def handleRecognitionConfirm_def
  recognitionCancel_def timerFires_def

lemmas sketch_eval = sketchRun_def initialSketchpad_def sketch_defs hypot_less

lemma sketchRun_snoc: "sketchRun s (es @ [e]) = sketchStep (sketchRun s es) e"
  by (simp add: sketchRun_def)


lemma selectedTemplate_step: "selectedTemplate (sketchStep s e) = kindAfter (selectedTemplate s) e"
  by (cases e) (simp_all add: sketch_defs split: list.split)

lemma selectedTemplate_run:
  "selectedTemplate (sketchRun s es) = foldl kindAfter (selectedTemplate s) es"
  by (induction es arbitrary: s) (simp_all add: sketchRun_def selectedTemplate_step)

lemma templateKept_step:
  "templateKept s \<Longrightarrow> e \<noteq> UndoButton \<Longrightarrow> templateKept (sketchStep s e)"
  by (cases e) (auto simp add: templateKept_def sketch_defs split: list.split)

lemma templateKept_run:
  "UndoButton \<notin> set es \<Longrightarrow> templateKept (sketchRun initialSketchpad es)"
proof (induction es rule: rev_induct)
  case Nil
  show ?case by (simp add: sketchRun_def templateKept_def initialSketchpad_def)
next
  case (snoc e es)
  then show ?case by (auto simp add: sketchRun_snoc intro: templateKept_step)
qed



lemmas workspace_defs = handleSendMessage_def handleKeyPress_def timerElapsed_def streamOpened_def
  streamChunk_def streamDone_def streamFailed_def removeTurn_def

lemmas workspace_eval = workspaceRun_def readySession_def initChat_def mountedWorkspace_def
  workspace_defs trim_def isWhiteSpace_def js_def Let_def

text \<open>The send button does nothing while a turn is retrieving or streaming.\<close>

lemma send_button_disabled:
  "isTyping s \<or> isRetrieving s \<Longrightarrow> workspaceStep c s SendButton = s"
  by auto


lemma streaming_eval:
  "streaming = \<lparr> messages = [\<lparr> role = AI, msg_text = initialMsg frustumContext \<rparr>,
                             \<lparr> role = User, msg_text = js ''a'' \<rparr>,
                             \<lparr> role = AI, msg_text = js ''Vol'' \<rparr>],
                 inputText = [], isTyping = True, isRetrieving = False, chatSession = True,
                 turns = [\<lparr> userMsg = js ''a'',
                            contextData = retrieveContext (js ''a'') Frustum,
                            phase = Receiving (js ''Vol'') \<rparr>],
                 sent = [promptWithContext \<lparr> userMsg = js ''a'',
                            contextData = retrieveContext (js ''a'') Frustum,
                            phase = Delayed \<rparr>] \<rparr>"
  by (simp add: streaming_def workspace_eval frustumContext_def)

lemma imageSignal_text: "imageSignal c \<Longrightarrow> ctx_text c \<noteq> []"
  by (auto simp add: imageSignal_def js_def)

lemma initialMsg_cases:
  "initialMsg c =
     greeting c @ (if imageSignal c then askValues
                   else if ctx_type c = Default then askFaces
                   else if 10 < length (ctx_text c) then askVariable
                   else askStart)"
proof (cases "ctx_text c = []")
  case True
  then have "\<not> imageSignal c" using imageSignal_text by blast
  with True show ?thesis
    by (simp add: initialMsg_def greeting_def askFaces_def askStart_def Let_def)
next
  case False
  then show ?thesis
    by (simp add: initialMsg_def greeting_def imageSignal_def askValues_def askFaces_def
        askVariable_def askStart_def Let_def)
qed

lemma no_faces:
  "ty \<noteq> Default \<Longrightarrow>
   \<not> includes_str (js ''I'' @ [0x27] @ js ''ve analyzed the '' @ typeName ty @ js ''.'' @ askValues) (js ''faces'')"
  "ty \<noteq> Default \<Longrightarrow>
   \<not> includes_str (js ''I'' @ [0x27] @ js ''ve analyzed the '' @ typeName ty @ js ''.'' @ askVariable) (js ''faces'')"
  "ty \<noteq> Default \<Longrightarrow>
   \<not> includes_str (js ''I'' @ [0x27] @ js ''ve analyzed the '' @ typeName ty @ js ''.'' @ askStart) (js ''faces'')"
  by (cases ty; simp add: js_def askValues_def askVariable_def askStart_def)+

lemma no_vertices:
  "ty \<noteq> Default \<Longrightarrow>
   \<not> includes_str (js ''I'' @ [0x27] @ js ''ve analyzed the '' @ typeName ty @ js ''.'' @ askValues) (js ''vertices'')"
  "ty \<noteq> Default \<Longrightarrow>
   \<not> includes_str (js ''I'' @ [0x27] @ js ''ve analyzed the '' @ typeName ty @ js ''.'' @ askVariable) (js ''vertices'')"
  "ty \<noteq> Default \<Longrightarrow>
   \<not> includes_str (js ''I'' @ [0x27] @ js ''ve analyzed the '' @ typeName ty @ js ''.'' @ askStart) (js ''vertices'')"
  by (cases ty; simp add: js_def askValues_def askVariable_def askStart_def)+

section \<open>Sketchpad: the selected kind\<close>

text \<open>
  Claim C1, as the program has it. A template button sets \<open>selectedTemplate\<close> to the kind of
  its template at once, the clear button resets it to \<open>default\<close>, and no other operation
  changes it, undo included: after every sequence of events from the empty canvas,
  \<open>selectedTemplate\<close> is the kind of the last template inserted since the last clear, or
  \<open>default\<close> if there is none. Hence, after every sequence of events without undo,
  \<open>selectedTemplate\<close> is \<open>default\<close> whenever at least one curve is committed and all
  committed curves are free-hand.
\<close>

theorem selectedTemplate_invariant:
  "selectedTemplate (sketchRun initialSketchpad es) = kindSinceClear es \<and>
   selectedTemplate (sketchStep s (TemplateButton t)) = templateType t \<and>
   (UndoButton \<notin> set es \<longrightarrow> freeHandOnly (sketchRun initialSketchpad es) \<longrightarrow>
      selectedTemplate (sketchRun initialSketchpad es) = Default)"
proof -
  have 1: "selectedTemplate (sketchRun initialSketchpad es) = kindSinceClear es"
    by (simp add: selectedTemplate_run kindSinceClear_def initialSketchpad_def)
  have 2: "selectedTemplate (sketchStep s (TemplateButton t)) = templateType t"
    by (simp add: addTemplate_def)
  have 3: "selectedTemplate (sketchRun initialSketchpad es) = Default"
    if "UndoButton \<notin> set es" and "freeHandOnly (sketchRun initialSketchpad es)"
    using templateKept_run [OF that(1)] that(2)
    by (auto simp add: templateKept_def freeHandOnly_def list_all_iff)
  from 1 2 3 show ?thesis by blast
qed

text \<open>One stroke from \<open>(0, 0)\<close> to \<open>(10, 0)\<close> on the empty canvas; the cube button.\<close>

theorem selectedTemplate_invariant_witness:
  "UndoButton \<notin> set [PointerDown (0, 0), PointerMove 1 (10, 0), PointerUp] \<and>
   freeHandOnly (sketchRun initialSketchpad [PointerDown (0, 0), PointerMove 1 (10, 0), PointerUp]) \<and>
   selectedTemplate (sketchRun initialSketchpad [PointerDown (0, 0), PointerMove 1 (10, 0), PointerUp])
     = Default \<and>
   selectedTemplate (sketchStep initialSketchpad (TemplateButton CUBE)) = Cube"
proof -
  have u: "UndoButton \<notin> set [PointerDown (0, 0), PointerMove 1 (10, 0), PointerUp]"
    by simp
  have f: "freeHandOnly (sketchRun initialSketchpad [PointerDown (0, 0), PointerMove 1 (10, 0), PointerUp])"
    by (simp add: sketch_eval freeHandOnly_def)
  note i = selectedTemplate_invariant
    [of "[PointerDown (0, 0), PointerMove 1 (10, 0), PointerUp]" initialSketchpad CUBE]
  from i u f
  have 1: "selectedTemplate (sketchRun initialSketchpad
      [PointerDown (0, 0), PointerMove 1 (10, 0), PointerUp]) = Default"
    by blast
  from i have "selectedTemplate (sketchStep initialSketchpad (TemplateButton CUBE)) = templateType CUBE"
    by blast
  then have 2: "selectedTemplate (sketchStep initialSketchpad (TemplateButton CUBE)) = Cube"
    by simp
  from u f 1 2 show ?thesis by blast
qed

text \<open>
  The cube template is inserted and undone, then one stroke is drawn: the only committed
  curve is free-hand, and \<open>selectedTemplate\<close> is still \<open>cube\<close>.
\<close>

theorem undo_keeps_kind_counterexample:
  "map snd (paths (sketchRun initialSketchpad
      [TemplateButton CUBE, UndoButton, PointerDown (0, 0), PointerMove 1 (10, 0), PointerUp]))
     = [FreeHand] \<and>
   selectedTemplate (sketchRun initialSketchpad
      [TemplateButton CUBE, UndoButton, PointerDown (0, 0), PointerMove 1 (10, 0), PointerUp])
     = Cube"
  by (simp add: sketch_eval)

section \<open>Context retrieval: definition line and properties fallback\<close>




section \<open>Tutoring session: the Enter key during a turn\<close>

text \<open>
  Claim C3, at two inputs. In a ready session the user types ``a'' and presses Enter: the
  session is retrieving. The user types ``b'' and presses Enter again: a second user
  message is appended and a second turn is in flight. Likewise, when the first turn has
  reached streaming, typing ``b'' and pressing Enter appends a user message after the AI
  message being streamed. The handler of the key checks the input and the chat handle only.
\<close>

theorem enter_key_starts_second_turn:
  "isRetrieving (workspaceRun frustumContext readySession
      [InputChange (js ''a''), KeyDown (js ''Enter'')]) \<and>
   map role (messages (workspaceRun frustumContext readySession
      [InputChange (js ''a''), KeyDown (js ''Enter''), InputChange (js ''b''), KeyDown (js ''Enter'')]))
     = [AI, User, User] \<and>
   map userMsg (turns (workspaceRun frustumContext readySession
      [InputChange (js ''a''), KeyDown (js ''Enter''), InputChange (js ''b''), KeyDown (js ''Enter'')]))
     = [js ''a'', js ''b''] \<and>
   isTyping (workspaceRun frustumContext readySession
      [InputChange (js ''a''), SendButton, TimerElapsed 0, StreamOpened 0]) \<and>
   map role (messages (workspaceRun frustumContext readySession
      [InputChange (js ''a''), SendButton, TimerElapsed 0, StreamOpened 0,
       InputChange (js ''b''), KeyDown (js ''Enter'')]))
     = [AI, User, AI, User]"
  by (simp add: workspace_eval)

section \<open>Stroke smoothing: shape of the curve\<close>



section \<open>Stroke smoothing: rounding of the coordinates\<close>

text \<open>
  Claim C5, as the program has it. For three or more points every coordinate written into
  the path is printed by \<open>toFixed(2)\<close>. For fewer than three points the numbers written
  are the coordinates of the points, in order, each printed by the default conversion of a
  number to a string: they are not rounded.
\<close>

theorem getSmoothedPath_rounding:
  "(3 \<le> length ps \<longrightarrow> allRounded (getSmoothedPath ps)) \<and>
   (length ps < 3 \<longrightarrow>
      numberPieces (getSmoothedPath ps) = concat (map (\<lambda>p. [ToStr (fst p), ToStr (snd p)]) ps))"
proof -
  have a: "3 \<le> length ps \<longrightarrow> allRounded (getSmoothedPath ps)"
    by (simp add: getSmoothedPath_long allRounded_curve)
  have b: "numberPieces (getSmoothedPath ps) = concat (map (\<lambda>p. [ToStr (fst p), ToStr (snd p)]) ps)"
    if "length ps < 3"
  proof -
    from that have "length ps = 0 \<or> length ps = Suc 0 \<or> length ps = Suc (Suc 0)"
      by arith
    then consider "ps = []" | p where "ps = [p]" | p q where "ps = [p, q]"
      by (auto simp add: length_Suc_conv)
    then show ?thesis
      by cases (simp_all add: getSmoothedPath_short numberPieces_def joinPoint_def)
  qed
  from a b show ?thesis by blast
qed

theorem getSmoothedPath_rounding_witness:
  "3 \<le> length [(0, 0), (10, 0), (20, 4 :: real)] \<and>
   allRounded (getSmoothedPath [(0, 0), (10, 0), (20, 4)]) \<and>
   length [(0.123, 5), (10.5, 5 :: real)] < 3 \<and>
   numberPieces (getSmoothedPath [(0.123, 5), (10.5, 5)]) = [ToStr 0.123, ToStr 5, ToStr 10.5, ToStr 5]"
  using getSmoothedPath_rounding [of "[(0, 0), (10, 0), (20, 4)]"]
    getSmoothedPath_rounding [of "[(0.123, 5), (10.5, 5)]"]
  by simp

text \<open>
  A stroke of the two points \<open>(0.123, 5)\<close> and \<open>(10.5, 5)\<close>: the coordinate \<open>0.123\<close> is
  written with its three decimals.
\<close>

theorem getSmoothedPath_short_unrounded_counterexample:
  "getSmoothedPath [(0.123, 5), (10.5, 5)] =
     [Text (js ''M ''), ToStr 0.123, Text (js '' ''), ToStr 5,
      Text (js '' L ''), ToStr 10.5, Text (js '' ''), ToStr 5] \<and>
   \<not> allRounded (getSmoothedPath [(0.123, 5), (10.5, 5)])"
  by (simp add: getSmoothedPath_def joinPoint_def allRounded_def)

section \<open>Sketchpad: the confirmation gate\<close>



section \<open>Context retrieval: determinism\<close>



section \<open>Tutoring session: transport failure\<close>

text \<open>
  Claim C8. Let turn \<open>i\<close> be past its timer, that is awaiting the stream or receiving
  chunks, and let the transport fail. The message ``Connection error. Please try again.''
  is appended to the transcript as an AI message, \<open>isTyping\<close> is cleared and the turn is
  over. If no other send is being retrieved, the session is ready, and it accepts the next
  turn: with the chat handle set, typing a text that is not blank and pressing the send
  button appends that text as a user message and starts retrieving.
\<close>

theorem transport_failure_recovers:
  assumes "i < length (turns s)" and "phase (turns s ! i) \<noteq> Delayed"
  shows "messages (workspaceStep c s (StreamFailed i)) = messages s @ [connectionError] \<and>
         \<not> isTyping (workspaceStep c s (StreamFailed i)) \<and>
         turns (workspaceStep c s (StreamFailed i)) = removeTurn i (turns s) \<and>
         (\<not> isRetrieving s \<longrightarrow> ready (workspaceStep c s (StreamFailed i))) \<and>
         (\<not> isRetrieving s \<and> chatSession s \<and> trim v \<noteq> [] \<longrightarrow>
            messages (workspaceRun c (workspaceStep c s (StreamFailed i)) [InputChange v, SendButton])
              = messages s @ [connectionError, \<lparr> role = User, msg_text = v \<rparr>] \<and>
            isRetrieving (workspaceRun c (workspaceStep c s (StreamFailed i)) [InputChange v, SendButton]))"
  using assms
  by (simp add: streamFailed_def connectionError_def ready_def workspaceRun_def
      handleSendMessage_def Let_def)

text \<open>The stream of the session \<open>streaming\<close> fails after its first chunk; the user sends ``b''.\<close>

theorem transport_failure_recovers_witness:
  "0 < length (turns streaming) \<and> phase (turns streaming ! 0) \<noteq> Delayed \<and>
   \<not> isRetrieving streaming \<and> chatSession streaming \<and> trim (js ''b'') \<noteq> [] \<and>
   isTyping streaming \<and>
   ready (workspaceStep frustumContext streaming (StreamFailed 0)) \<and>
   map msg_text (messages (workspaceRun frustumContext
       (workspaceStep frustumContext streaming (StreamFailed 0)) [InputChange (js ''b''), SendButton]))
     = [initialMsg frustumContext, js ''a'', js ''Vol'', js ''Connection error. Please try again.'',
        js ''b'']"
proof -
  have a: "0 < length (turns streaming)" "phase (turns streaming ! 0) \<noteq> Delayed"
    by (simp_all add: streaming_eval)
  have b: "\<not> isRetrieving streaming" "chatSession streaming" "isTyping streaming"
    by (simp_all add: streaming_eval)
  have t: "trim (js ''b'') \<noteq> []"
    by (simp add: trim_def isWhiteSpace_def js_def)
  note r = transport_failure_recovers [OF a, of frustumContext "js ''b''"]
  from r b have 1: "ready (workspaceStep frustumContext streaming (StreamFailed 0))"
    by blast
  from r b t have "messages (workspaceRun frustumContext
       (workspaceStep frustumContext streaming (StreamFailed 0)) [InputChange (js ''b''), SendButton])
     = messages streaming @ [connectionError, \<lparr> role = User, msg_text = js ''b'' \<rparr>]"
    by blast
  then have 2: "map msg_text (messages (workspaceRun frustumContext
       (workspaceStep frustumContext streaming (StreamFailed 0)) [InputChange (js ''b''), SendButton]))
     = [initialMsg frustumContext, js ''a'', js ''Vol'', js ''Connection error. Please try again.'',
        js ''b'']"
    by (simp add: streaming_eval connectionError_def)
  from a b t 1 2 show ?thesis by blast
qed

section \<open>Tutoring session: the opening message\<close>

text \<open>
  Claim C9. \<open>initChat\<close> leaves a transcript of exactly one message, from the AI. After the
  greeting it asks for the given values if the problem text contains the image signal;
  else, for the kind \<open>default\<close>, for a description of the faces or vertices; else, if the
  problem text is longer than 10 code units, for the first variable to identify; else
  where to start. For a kind other than \<open>default\<close> the message mentions neither faces nor
  vertices.
\<close>

theorem opening_message:
  "messages (initChat c s) = [\<lparr> role = AI, msg_text = initialMsg c \<rparr>] \<and>
   (imageSignal c \<longrightarrow> initialMsg c = greeting c @ askValues) \<and>
   (\<not> imageSignal c \<and> ctx_type c = Default \<longrightarrow> initialMsg c = greeting c @ askFaces) \<and>
   (\<not> imageSignal c \<and> ctx_type c \<noteq> Default \<and> 10 < length (ctx_text c) \<longrightarrow>
      initialMsg c = greeting c @ askVariable) \<and>
   (\<not> imageSignal c \<and> ctx_type c \<noteq> Default \<and> length (ctx_text c) \<le> 10 \<longrightarrow>
      initialMsg c = greeting c @ askStart) \<and>
   (ctx_type c \<noteq> Default \<longrightarrow>
      \<not> includes_str (initialMsg c) (js ''faces'') \<and> \<not> includes_str (initialMsg c) (js ''vertices''))"
proof -
  have 1: "messages (initChat c s) = [\<lparr> role = AI, msg_text = initialMsg c \<rparr>]"
    by (simp add: initChat_def)
  have 2: "\<not> includes_str (initialMsg c) (js ''faces'') \<and> \<not> includes_str (initialMsg c) (js ''vertices'')"
    if "ctx_type c \<noteq> Default"
    using that no_faces [OF that] no_vertices [OF that]
    by (simp add: initialMsg_cases greeting_def)
  from 1 2 show ?thesis
    by (simp add: initialMsg_cases)
qed

text \<open>The context of a confirmed frustum sketch: the third case.\<close>

theorem opening_message_witness:
  "\<not> imageSignal frustumContext \<and> ctx_type frustumContext \<noteq> Default \<and>
   10 < length (ctx_text frustumContext) \<and>
   initialMsg frustumContext = js ''I'' @ [0x27]
     @ js ''ve analyzed the frustum. It looks like an interesting problem. What is the first variable we need to identify?'' \<and>
   \<not> includes_str (initialMsg frustumContext) (js ''faces'') \<and>
   \<not> includes_str (initialMsg frustumContext) (js ''vertices'')"
proof -
  have a: "\<not> imageSignal frustumContext" "ctx_type frustumContext \<noteq> Default"
    "10 < length (ctx_text frustumContext)"
    by (simp_all add: imageSignal_def frustumContext_def js_def)
  note o = opening_message [of frustumContext mountedWorkspace]
  from o a have "initialMsg frustumContext = greeting frustumContext @ askVariable"
    by blast
  then have 1: "initialMsg frustumContext = js ''I'' @ [0x27]
     @ js ''ve analyzed the frustum. It looks like an interesting problem. What is the first variable we need to identify?''"
    by (simp add: greeting_def askVariable_def frustumContext_def js_def)
  from o a have 2: "\<not> includes_str (initialMsg frustumContext) (js ''faces'')"
    "\<not> includes_str (initialMsg frustumContext) (js ''vertices'')"
    by blast+
  from a 1 2 show ?thesis by blast
qed

section \<open>Scan view: typed text has the kind default\<close>

text \<open>
  Claim C10. A context the analyze button of the scan view emits carries the problem text
  as it is and the kind \<open>default\<close>, whatever the text says. Whenever an event of the scan
  view emits a context of another kind, the event is an example button and the context is
  that example.
\<close>

theorem typed_text_is_default:
  "(snd (scanStep t AnalyzeButton) = Some c \<longrightarrow> ctx_type c = Default \<and> ctx_text c = t) \<and>
   (snd (scanStep t e) = Some c \<and> ctx_type c \<noteq> Default \<longrightarrow>
      (\<exists>i < length examples. e = ExampleButton i \<and> c = examples ! i))"
  by (cases e) (auto simp add: scanHandleAnalyze_def split: if_splits)

text \<open>A typed problem about a cube.\<close>

theorem typed_text_is_default_witness:
  "snd (scanStep (js ''A cube has side 3. Find its volume.'') AnalyzeButton) =
     Some \<lparr> ctx_text = js ''A cube has side 3. Find its volume.'', ctx_image = None, ctx_type = Default \<rparr> \<and>
   ctx_type \<lparr> ctx_text = js ''A cube has side 3. Find its volume.'', ctx_image = None, ctx_type = Default \<rparr>
     = Default \<and>
   map ctx_type examples = [Pyramid, Cube, Frustum, Default]"
proof -
  have s: "snd (scanStep (js ''A cube has side 3. Find its volume.'') AnalyzeButton) =
     Some \<lparr> ctx_text = js ''A cube has side 3. Find its volume.'', ctx_image = None, ctx_type = Default \<rparr>"
    by (simp add: scanHandleAnalyze_def trim_def isWhiteSpace_def js_def)
  from typed_text_is_default [of "js ''A cube has side 3. Find its volume.''"
      "\<lparr> ctx_text = js ''A cube has side 3. Find its volume.'', ctx_image = None, ctx_type = Default \<rparr>"
      AnalyzeButton] s
  have "ctx_type \<lparr> ctx_text = js ''A cube has side 3. Find its volume.'', ctx_image = None, ctx_type = Default \<rparr>
     = Default" by blast
  with s show ?thesis by (simp add: examples_def)
qed

end
